theory Spec2Isabelle
  imports Main
begin

section \<open>The game-load entry point of core.c\<close>

text \<open>
  The source is one C function:
  \<^verbatim>\<open>
  bool retro_load_game(const struct retro_game_info *game)
  {
      if (!game)
          return false;
      if (!load_rom(game->path))
          return false;
      return true;
  }
  \<close>
  It tests a pointer, reads one field through it, calls the external routine
  \<open>load_rom\<close> with the value read, and returns a boolean.
\<close>

subsection \<open>Data\<close>

text \<open>
  The declaration of \<open>struct retro_game_info\<close> is not part of the source; the code uses
  its field \<open>path\<close> and nothing else. The struct is a record with that field; every other
  field it may have lives in the extension slot of the record scheme (type \<open>'x\<close> below).
  The type of the field is a parameter \<open>'p\<close>: the code only passes the value on.
\<close>

record 'p retro_game_info =
  path :: 'p

text \<open>
  A pointer is \<open>NULL\<close> or an address. The memory maps the addresses of the live
  game-description objects to their contents; whatever else the machine holds (the files,
  the emulator's globals, the allocator) is the extension slot of the memory record.
\<close>

type_synonym addr = nat

datatype ptr = NULL | Ptr addr

record ('p, 'x) memory =
  heap :: "addr \<rightharpoonup> ('p, 'x) retro_game_info_scheme"

subsection \<open>Outcomes and observable events\<close>

text \<open>
  A C statement run in a memory returns a value and a memory, or goes wrong (reading
  through a pointer to no live object is undefined behaviour), or never returns.
\<close>

datatype ('a, 's) outcome = Returns 'a 's | Faults | Hangs

text \<open>
  The two operations of the function that touch anything outside its own frame are
  recorded, in program order: the read of \<open>game->path\<close> and the call of \<open>load_rom\<close>.
  The record is kept apart from the memory, so the external routine cannot alter it.
\<close>

datatype 'p event = Read_path addr | Call_load_rom 'p

type_synonym ('p, 's, 'a) stmt = "'s \<Rightarrow> 'p event list \<times> ('a, 's) outcome"

definition give :: "'a \<Rightarrow> ('p, 's, 'a) stmt" where
  "give v s = ([], Returns v s)"

definition then_do :: "('p, 's, 'a) stmt \<Rightarrow> ('a \<Rightarrow> ('p, 's, 'b) stmt) \<Rightarrow> ('p, 's, 'b) stmt" where
  "then_do m f s =
     (case m s of
        (t, Returns v s') \<Rightarrow> (case f v s' of (t', r) \<Rightarrow> (t @ t', r))
      | (t, Faults) \<Rightarrow> (t, Faults)
      | (t, Hangs) \<Rightarrow> (t, Hangs))"

text \<open>\<open>game->path\<close>: the read goes wrong when no live object is at the address.\<close>

definition read_path :: "addr \<Rightarrow> ('p, ('p, 'x, 'w) memory_scheme, 'p) stmt" where
  "read_path a s =
     ([Read_path a],
      case heap s a of None \<Rightarrow> Faults | Some g \<Rightarrow> Returns (path g) s)"

text \<open>
  \<open>load_rom\<close> is not defined in the source. It is a parameter: given its argument and
  the memory, it returns a boolean and a memory, or goes wrong, or never returns. The
  source uses its result under \<open>!\<close> only, so the boolean is all the function sees of it
  (true: the result is not zero).
\<close>

type_synonym ('p, 's) load_rom_fn = "'p \<Rightarrow> 's \<Rightarrow> (bool, 's) outcome"

definition call_load_rom :: "('p, 's) load_rom_fn \<Rightarrow> 'p \<Rightarrow> ('p, 's, bool) stmt" where
  "call_load_rom load_rom p s = ([Call_load_rom p], load_rom p s)"

subsection \<open>The function\<close>

definition retro_load_game ::
  "('p, ('p, 'x, 'w) memory_scheme) load_rom_fn \<Rightarrow> ptr
     \<Rightarrow> ('p, ('p, 'x, 'w) memory_scheme, bool) stmt" where
  "retro_load_game load_rom game =
     (case game of
        NULL \<Rightarrow> give False
      | Ptr a \<Rightarrow>
          then_do (read_path a) (\<lambda>p.
          then_do (call_load_rom load_rom p) (\<lambda>ok.
          if \<not> ok then give False else give True)))"

subsection \<open>Reading a run\<close>

text \<open>The boolean a run returned, if it returned.\<close>

fun returned :: "('a, 's) outcome \<Rightarrow> 'a option" where
  "returned (Returns v s) = Some v"
| "returned Faults = None"
| "returned Hangs = None"

text \<open>The memory a run left, if it returned.\<close>

fun final_memory :: "('a, 's) outcome \<Rightarrow> 's option" where
  "final_memory (Returns v s) = Some s"
| "final_memory Faults = None"
| "final_memory Hangs = None"

text \<open>The arguments of the calls of \<open>load_rom\<close> in a run, in order.\<close>

fun load_rom_calls :: "'p event list \<Rightarrow> 'p list" where
  "load_rom_calls [] = []"
| "load_rom_calls (Read_path a # t) = load_rom_calls t"
| "load_rom_calls (Call_load_rom p # t) = p # load_rom_calls t"

text \<open>The addresses read through in a run, in order.\<close>

fun path_reads :: "'p event list \<Rightarrow> addr list" where
  "path_reads [] = []"
| "path_reads (Read_path a # t) = a # path_reads t"
| "path_reads (Call_load_rom p # t) = path_reads t"

text \<open>
  What \<open>load_rom\<close> reports for the game's path: the boolean it returns when called, in
  the memory of the call, with the path of the object the pointer refers to. There is no
  report for a null pointer, for a pointer to no live object, or when \<open>load_rom\<close> does
  not return.
\<close>

definition load_report ::
  "('p, ('p, 'x, 'w) memory_scheme) load_rom_fn \<Rightarrow> ptr \<Rightarrow> ('p, 'x, 'w) memory_scheme
     \<Rightarrow> bool option" where
  "load_report load_rom game s =
     (case game of
        NULL \<Rightarrow> None
      | Ptr a \<Rightarrow> (case heap s a of None \<Rightarrow> None | Some g \<Rightarrow> returned (load_rom (path g) s)))"

text \<open>
  The calls C defines and the specification speaks about: the pointer is null, or it refers
  to a live object and \<open>load_rom\<close> returns a boolean for its path.
\<close>

definition well_formed_call ::
  "('p, ('p, 'x, 'w) memory_scheme) load_rom_fn \<Rightarrow> ptr \<Rightarrow> ('p, 'x, 'w) memory_scheme
     \<Rightarrow> bool" where
  "well_formed_call load_rom game s = (game = NULL \<or> load_report load_rom game s \<noteq> None)"

text \<open>
  A deterministic \<open>load_rom\<close>: what it reports for an argument is the same at every
  call, whatever the memory has become in between.
\<close>

definition deterministic_load_rom :: "('p, 's) load_rom_fn \<Rightarrow> bool" where
  "deterministic_load_rom load_rom =
     (\<forall>p s1 s2. returned (load_rom p s1) = returned (load_rom p s2))"

text \<open>
  Two calls have the same input when they pass the same pointer and, if it is not null,
  the same object contents are found behind it.
\<close>

definition same_input ::
  "ptr \<Rightarrow> ('p, 'x, 'w) memory_scheme \<Rightarrow> ('p, 'x, 'w) memory_scheme \<Rightarrow> bool" where
  "same_input game s1 s2 = (case game of NULL \<Rightarrow> True | Ptr a \<Rightarrow> heap s1 a = heap s2 a)"

text \<open>
  Counting the applications of \<open>load_rom\<close>. The event record is written by the function;
  to count what really happens to the routine, the routine itself is wrapped: the wrapped
  routine runs the given one on the memory without the counter and, when that returns,
  adds one to a counter kept in the extension slot of the memory. The counter of the
  memory a run leaves is then the number of applications made during the run.
\<close>

definition call_count :: "('p, 'x, nat \<times> 'w) memory_scheme \<Rightarrow> nat" where
  "call_count c = fst (memory.more c)"

definition uncounted :: "('p, 'x, nat \<times> 'w) memory_scheme \<Rightarrow> ('p, 'x, 'w) memory_scheme" where
  "uncounted c = \<lparr>heap = heap c, \<dots> = snd (memory.more c)\<rparr>"

definition with_count :: "nat \<Rightarrow> ('p, 'x, 'w) memory_scheme \<Rightarrow> ('p, 'x, nat \<times> 'w) memory_scheme" where
  "with_count n s = \<lparr>heap = heap s, \<dots> = (n, memory.more s)\<rparr>"

definition counted ::
  "('p, ('p, 'x, 'w) memory_scheme) load_rom_fn
     \<Rightarrow> ('p, ('p, 'x, nat \<times> 'w) memory_scheme) load_rom_fn" where
  "counted load_rom p c =
     (case load_rom p (uncounted c) of
        Returns ok s' \<Rightarrow> Returns ok (with_count (Suc (call_count c)) s')
      | Faults \<Rightarrow> Faults
      | Hangs \<Rightarrow> Hangs)"

subsection \<open>A concrete machine for the examples\<close>

text \<open>
  Three ROM paths, one that loads and two that do not. The example routine counts its
  calls in the extension slot of the memory, so that it visibly has an effect.
\<close>

definition demo_load_rom :: "(string, (string, nat, nat) memory_scheme) load_rom_fn" where
  "demo_load_rom p s = Returns (p = ''good.rom'') (memory.more_update Suc s)"

definition demo_memory :: "(string, nat, nat) memory_scheme" where
  "demo_memory =
     \<lparr>heap = [100 \<mapsto> \<lparr>path = ''good.rom'', \<dots> = 7\<rparr>,
              200 \<mapsto> \<lparr>path = ''bad.rom'', \<dots> = 7\<rparr>,
              300 \<mapsto> \<lparr>path = ''good.rom'', \<dots> = 9\<rparr>,
              400 \<mapsto> \<lparr>path = ''worse.rom'', \<dots> = 11\<rparr>],
      \<dots> = 0\<rparr>"

subsection \<open>The run of the function, case by case\<close>

lemma run_null:
  "retro_load_game load_rom NULL s = ([], Returns False s)"
  by (simp add: retro_load_game_def give_def)

lemma run_dangling:
  "heap s a = None \<Longrightarrow> retro_load_game load_rom (Ptr a) s = ([Read_path a], Faults)"
  by (simp add: retro_load_game_def then_do_def read_path_def)

lemma run_live:
  "heap s a = Some g \<Longrightarrow>
   retro_load_game load_rom (Ptr a) s =
     ([Read_path a, Call_load_rom (path g)], load_rom (path g) s)"
  by (simp add: retro_load_game_def then_do_def read_path_def call_load_rom_def give_def
      split: outcome.splits)

lemma returned_run:
  "returned (snd (retro_load_game load_rom game s))
     = (if game = NULL then Some False else load_report load_rom game s)"
proof (cases game)
  case NULL
  then show ?thesis
    by (simp add: run_null)
next
  case (Ptr a)
  then show ?thesis
    by (cases "heap s a") (simp_all add: run_dangling run_live load_report_def)
qed

lemma demo_heap [simp]:
  "heap demo_memory 100 = Some \<lparr>path = ''good.rom'', \<dots> = 7\<rparr>"
  "heap demo_memory 200 = Some \<lparr>path = ''bad.rom'', \<dots> = 7\<rparr>"
  "heap demo_memory 300 = Some \<lparr>path = ''good.rom'', \<dots> = 9\<rparr>"
  "heap demo_memory 400 = Some \<lparr>path = ''worse.rom'', \<dots> = 11\<rparr>"
  "heap demo_memory 0 = None"
  by (simp_all add: demo_memory_def)

section \<open>Properties\<close>

text \<open>
  C2. When the game-description pointer is null, the function returns false.
\<close>

theorem null_game_returns_false:
  "returned (snd (retro_load_game load_rom NULL s)) = Some False"
  by (simp add: run_null)

text \<open>
  C1. The function returns true exactly when the pointer is not null and \<open>load_rom\<close>,
  applied to the game's path, reports success; this holds for every pointer, routine and
  memory. In every other well-formed call it returns false: a call returns true or false
  and nothing else.
\<close>

theorem returns_true_iff_loaded:
  "(returned (snd (retro_load_game load_rom game s)) = Some True)
     = (game \<noteq> NULL \<and> load_report load_rom game s = Some True)
   \<and> (well_formed_call load_rom game s \<longrightarrow>
        \<not> (game \<noteq> NULL \<and> load_report load_rom game s = Some True) \<longrightarrow>
        returned (snd (retro_load_game load_rom game s)) = Some False)"
proof (cases game)
  case NULL
  then show ?thesis
    by (simp add: run_null load_report_def)
next
  case (Ptr a)
  show ?thesis
  proof (cases "heap s a")
    case None
    with Ptr show ?thesis
      by (simp add: run_dangling load_report_def well_formed_call_def)
  next
    case (Some g)
    with Ptr show ?thesis
      by (auto simp add: run_live load_report_def well_formed_call_def)
  qed
qed

theorem returns_true_iff_loaded_witness:
  "returned (snd (retro_load_game demo_load_rom (Ptr 100) demo_memory)) = Some True
   \<and> load_report demo_load_rom (Ptr 100) demo_memory = Some True
   \<and> well_formed_call demo_load_rom (Ptr 200) demo_memory
   \<and> load_report demo_load_rom (Ptr 200) demo_memory = Some False
   \<and> returned (snd (retro_load_game demo_load_rom (Ptr 200) demo_memory)) = Some False
   \<and> well_formed_call demo_load_rom NULL demo_memory
   \<and> returned (snd (retro_load_game demo_load_rom NULL demo_memory)) = Some False"
  using returns_true_iff_loaded [of demo_load_rom "Ptr 100" demo_memory]
    returns_true_iff_loaded [of demo_load_rom "Ptr 200" demo_memory]
    returns_true_iff_loaded [of demo_load_rom NULL demo_memory]
  by (simp add: load_report_def well_formed_call_def demo_load_rom_def)

text \<open>
  C3. When the pointer refers to a live object and \<open>load_rom\<close> reports failure for its
  path, the function returns false; the outcome of the run is the outcome of
  \<open>load_rom\<close>, unchanged.
\<close>

theorem load_failure_is_propagated:
  "heap s a = Some g \<Longrightarrow> returned (load_rom (path g) s) = Some False \<Longrightarrow>
   returned (snd (retro_load_game load_rom (Ptr a) s)) = Some False
   \<and> snd (retro_load_game load_rom (Ptr a) s) = load_rom (path g) s"
  by (simp add: run_live)

theorem load_failure_is_propagated_witness:
  "heap demo_memory 200 = Some \<lparr>path = ''bad.rom'', \<dots> = 7\<rparr>
   \<and> returned (demo_load_rom ''bad.rom'' demo_memory) = Some False
   \<and> returned (snd (retro_load_game demo_load_rom (Ptr 200) demo_memory)) = Some False
   \<and> snd (retro_load_game demo_load_rom (Ptr 200) demo_memory)
       = demo_load_rom ''bad.rom'' demo_memory"
  using load_failure_is_propagated
    [of demo_memory 200 "\<lparr>path = ''bad.rom'', \<dots> = 7\<rparr>" demo_load_rom]
  by (simp add: demo_load_rom_def)

text \<open>
  C4. When the pointer is null the run consists of the return alone: nothing is read
  through the pointer, \<open>load_rom\<close> is not called, and the memory is the one the call
  started in. In any run, an address is read through only if it is the one the non-null
  pointer holds, and \<open>load_rom\<close> is called only if the pointer is not null.
\<close>

theorem null_game_fails_immediately:
  "retro_load_game load_rom NULL s = ([], Returns False s)
   \<and> (a \<in> set (path_reads (fst (retro_load_game load_rom game s))) \<longrightarrow> game = Ptr a)
   \<and> (load_rom_calls (fst (retro_load_game load_rom game s)) \<noteq> [] \<longrightarrow> game \<noteq> NULL)"
proof (cases game)
  case NULL
  then show ?thesis
    by (simp add: run_null)
next
  case (Ptr b)
  then show ?thesis
    by (cases "heap s b") (simp_all add: run_null run_dangling run_live)
qed

theorem null_game_fails_immediately_witness:
  "retro_load_game demo_load_rom NULL demo_memory = ([], Returns False demo_memory)
   \<and> 100 \<in> set (path_reads (fst (retro_load_game demo_load_rom (Ptr 100) demo_memory)))
   \<and> load_rom_calls (fst (retro_load_game demo_load_rom (Ptr 100) demo_memory)) \<noteq> []
   \<and> path_reads (fst (retro_load_game demo_load_rom NULL demo_memory)) = []
   \<and> load_rom_calls (fst (retro_load_game demo_load_rom NULL demo_memory)) = []"
  using null_game_fails_immediately [of demo_load_rom demo_memory 100 "Ptr 100"]
    null_game_fails_immediately [of demo_load_rom demo_memory 100 NULL]
  by (simp add: run_live)

text \<open>
  C5. With a deterministic \<open>load_rom\<close>, any two calls with the same input return the
  same boolean (or both return none), whatever memories the two calls run in; in
  particular a call repeated in the memory its first run left.
\<close>

theorem same_input_same_result:
  "deterministic_load_rom load_rom \<Longrightarrow> same_input game s1 s2 \<Longrightarrow>
   returned (snd (retro_load_game load_rom game s1))
     = returned (snd (retro_load_game load_rom game s2))"
proof (cases game)
  case NULL
  then show ?thesis
    by (simp add: run_null)
next
  case (Ptr a)
  assume det: "deterministic_load_rom load_rom" and same: "same_input game s1 s2"
  from same Ptr have heaps: "heap s1 a = heap s2 a"
    by (simp add: same_input_def)
  show ?thesis
  proof (cases "heap s1 a")
    case None
    with heaps Ptr show ?thesis
      by (simp add: run_dangling)
  next
    case (Some g)
    from det have "returned (load_rom (path g) s1) = returned (load_rom (path g) s2)"
      unfolding deterministic_load_rom_def by blast
    with Some heaps Ptr show ?thesis
      by (simp add: run_live)
  qed
qed

theorem same_input_same_result_witness:
  "deterministic_load_rom demo_load_rom
   \<and> final_memory (snd (retro_load_game demo_load_rom (Ptr 100) demo_memory))
       = Some (memory.more_update Suc demo_memory)
   \<and> same_input (Ptr 100) demo_memory (memory.more_update Suc demo_memory)
   \<and> returned (snd (retro_load_game demo_load_rom (Ptr 100) demo_memory)) = Some True
   \<and> returned (snd (retro_load_game demo_load_rom (Ptr 100)
         (memory.more_update Suc demo_memory))) = Some True"
proof -
  have det: "deterministic_load_rom demo_load_rom"
    by (simp add: deterministic_load_rom_def demo_load_rom_def)
  have same: "same_input (Ptr 100) demo_memory (memory.more_update Suc demo_memory)"
    by (simp add: same_input_def)
  have first: "returned (snd (retro_load_game demo_load_rom (Ptr 100) demo_memory)) = Some True"
    by (simp add: run_live demo_load_rom_def)
  have left: "final_memory (snd (retro_load_game demo_load_rom (Ptr 100) demo_memory))
      = Some (memory.more_update Suc demo_memory)"
    by (simp add: run_live demo_load_rom_def)
  from same_input_same_result [OF det same] first left det same show ?thesis
    by simp
qed

text \<open>
  C6. The function changes nothing itself. For a null pointer the memory after the call
  is the memory before it. For a pointer to a live object the memory after the call is the
  one \<open>load_rom\<close> left when called in the memory the function was entered with: no
  object is allocated, freed or written by the function, and if \<open>load_rom\<close> leaves the
  memory alone, so does the call.
\<close>

theorem no_effect_beyond_load_rom:
  "final_memory (snd (retro_load_game load_rom NULL s)) = Some s
   \<and> (heap s a = Some g \<longrightarrow>
        final_memory (snd (retro_load_game load_rom (Ptr a) s))
          = final_memory (load_rom (path g) s))
   \<and> (heap s a = Some g \<longrightarrow> final_memory (load_rom (path g) s) = Some s \<longrightarrow>
        final_memory (snd (retro_load_game load_rom (Ptr a) s)) = Some s)"
  by (simp add: run_null run_live)

theorem no_effect_beyond_load_rom_witness:
  "heap demo_memory 100 = Some \<lparr>path = ''good.rom'', \<dots> = 7\<rparr>
   \<and> final_memory (demo_load_rom ''good.rom'' demo_memory)
       = Some (memory.more_update Suc demo_memory)
   \<and> final_memory (snd (retro_load_game demo_load_rom (Ptr 100) demo_memory))
       = Some (memory.more_update Suc demo_memory)
   \<and> heap (memory.more_update Suc demo_memory) = heap demo_memory
   \<and> final_memory (Returns True demo_memory) = Some demo_memory
   \<and> final_memory (snd (retro_load_game (\<lambda>p s. Returns True s) (Ptr 100) demo_memory))
       = Some demo_memory
   \<and> final_memory (snd (retro_load_game demo_load_rom NULL demo_memory)) = Some demo_memory"
  using no_effect_beyond_load_rom
      [of demo_load_rom demo_memory 100 "\<lparr>path = ''good.rom'', \<dots> = 7\<rparr>"]
    no_effect_beyond_load_rom
      [of "\<lambda>p s. Returns True s" demo_memory 100 "\<lparr>path = ''good.rom'', \<dots> = 7\<rparr>"]
  by (simp add: demo_load_rom_def)

text \<open>
  C7. When the pointer refers to a live object, the run reads the object's path and then
  calls \<open>load_rom\<close> with exactly that value, in the memory the function was entered
  with; the outcome of the run is the outcome of that call.
\<close>

theorem load_rom_called_with_path:
  "heap s a = Some g \<Longrightarrow>
   fst (retro_load_game load_rom (Ptr a) s) = [Read_path a, Call_load_rom (path g)]
   \<and> load_rom_calls (fst (retro_load_game load_rom (Ptr a) s)) = [path g]
   \<and> snd (retro_load_game load_rom (Ptr a) s) = load_rom (path g) s"
  by (simp add: run_live)

theorem load_rom_called_with_path_witness:
  "heap demo_memory 200 = Some \<lparr>path = ''bad.rom'', \<dots> = 7\<rparr>
   \<and> fst (retro_load_game demo_load_rom (Ptr 200) demo_memory)
       = [Read_path 200, Call_load_rom ''bad.rom'']
   \<and> load_rom_calls (fst (retro_load_game demo_load_rom (Ptr 200) demo_memory)) = [''bad.rom'']
   \<and> snd (retro_load_game demo_load_rom (Ptr 200) demo_memory)
       = Returns False (memory.more_update Suc demo_memory)"
  using load_rom_called_with_path
    [of demo_memory 200 "\<lparr>path = ''bad.rom'', \<dots> = 7\<rparr>" demo_load_rom]
  by (simp add: demo_load_rom_def)

text \<open>
  C8. The boolean a call returns is determined by whether the pointer is null and by what
  \<open>load_rom\<close> reports for the game's path. Two calls that agree on both return the same,
  whatever else the two objects hold, whatever their paths are, and whatever the two
  memories are.
\<close>

theorem result_depends_on_null_and_report_only:
  "(game1 = NULL) = (game2 = NULL) \<Longrightarrow>
   load_report load_rom game1 s1 = load_report load_rom game2 s2 \<Longrightarrow>
   returned (snd (retro_load_game load_rom game1 s1))
     = returned (snd (retro_load_game load_rom game2 s2))"
  by (simp add: returned_run)

theorem result_depends_on_null_and_report_only_witness:
  "heap demo_memory 200 = Some \<lparr>path = ''bad.rom'', \<dots> = 7\<rparr>
   \<and> heap (memory.more_update Suc demo_memory) 400 = Some \<lparr>path = ''worse.rom'', \<dots> = 11\<rparr>
   \<and> load_report demo_load_rom (Ptr 200) demo_memory = Some False
   \<and> load_report demo_load_rom (Ptr 400) (memory.more_update Suc demo_memory) = Some False
   \<and> returned (snd (retro_load_game demo_load_rom (Ptr 200) demo_memory))
       = returned (snd (retro_load_game demo_load_rom (Ptr 400)
           (memory.more_update Suc demo_memory)))"
proof -
  have r1: "load_report demo_load_rom (Ptr 200) demo_memory = Some False"
    by (simp add: load_report_def demo_load_rom_def)
  have r2: "load_report demo_load_rom (Ptr 400) (memory.more_update Suc demo_memory) = Some False"
    by (simp add: load_report_def demo_load_rom_def)
  have nn: "(Ptr 200 = NULL) = (Ptr 400 = NULL)"
    by simp
  from r1 r2 have eq: "load_report demo_load_rom (Ptr 200) demo_memory
      = load_report demo_load_rom (Ptr 400) (memory.more_update Suc demo_memory)"
    by simp
  from result_depends_on_null_and_report_only [OF nn eq] r1 r2 show ?thesis
    by simp
qed

text \<open>
  C9. A call of the function calls \<open>load_rom\<close> at most once: not at all when the
  pointer is null, and exactly once when it refers to a live object. This is so in the
  event record, in the outcome, and in the count of the applications of the routine:
  \<^item> for a null pointer the record holds no call, the outcome is the return of false in
    the unchanged memory whatever \<open>load_rom\<close> is, and the call counter is unchanged;
  \<^item> for a pointer to a live object the record holds one call, the outcome is that of
    one application of \<open>load_rom\<close> to the path in the memory the function was entered
    with, and when that application returns the call counter has grown by exactly one.
\<close>

theorem load_rom_called_at_most_once:
  "length (load_rom_calls (fst (retro_load_game load_rom game s))) \<le> 1
   \<and> (game = NULL \<longrightarrow>
        length (load_rom_calls (fst (retro_load_game load_rom game s))) = 0
        \<and> snd (retro_load_game load_rom game s) = Returns False s)
   \<and> (game = Ptr a \<longrightarrow> heap s a = Some g \<longrightarrow>
        length (load_rom_calls (fst (retro_load_game load_rom game s))) = 1
        \<and> snd (retro_load_game load_rom game s) = load_rom (path g) s)
   \<and> (game = NULL \<longrightarrow>
        map_option call_count (final_memory (snd (retro_load_game (counted load_rom) game c)))
          = Some (call_count c))
   \<and> (game = Ptr a \<longrightarrow> heap c a = Some g \<longrightarrow>
        load_rom (path g) (uncounted c) = Returns ok s' \<longrightarrow>
        map_option call_count (final_memory (snd (retro_load_game (counted load_rom) game c)))
          = Some (Suc (call_count c)))"
proof (cases game)
  case NULL
  then show ?thesis
    by (simp add: run_null)
next
  case (Ptr b)
  have record_bound: "length (load_rom_calls (fst (retro_load_game load_rom (Ptr b) s))) \<le> 1"
    by (cases "heap s b") (simp_all add: run_dangling run_live)
  have live: "heap s b = Some g \<Longrightarrow>
      length (load_rom_calls (fst (retro_load_game load_rom (Ptr b) s))) = 1
      \<and> snd (retro_load_game load_rom (Ptr b) s) = load_rom (path g) s"
    by (simp add: run_live)
  have count: "heap c b = Some g \<Longrightarrow> load_rom (path g) (uncounted c) = Returns ok s' \<Longrightarrow>
      map_option call_count
        (final_memory (snd (retro_load_game (counted load_rom) (Ptr b) c)))
        = Some (Suc (call_count c))"
    by (simp add: run_live counted_def with_count_def call_count_def)
  from Ptr record_bound live count show ?thesis
    by auto
qed

theorem load_rom_called_at_most_once_witness:
  "length (load_rom_calls (fst (retro_load_game demo_load_rom NULL demo_memory))) = 0
   \<and> snd (retro_load_game demo_load_rom NULL demo_memory) = Returns False demo_memory
   \<and> heap demo_memory 300 = Some \<lparr>path = ''good.rom'', \<dots> = 9\<rparr>
   \<and> length (load_rom_calls (fst (retro_load_game demo_load_rom (Ptr 300) demo_memory))) = 1
   \<and> snd (retro_load_game demo_load_rom (Ptr 300) demo_memory)
       = demo_load_rom ''good.rom'' demo_memory
   \<and> call_count (with_count 0 demo_memory) = 0
   \<and> heap (with_count 0 demo_memory) 300 = Some \<lparr>path = ''good.rom'', \<dots> = 9\<rparr>
   \<and> demo_load_rom ''good.rom'' (uncounted (with_count 0 demo_memory))
       = Returns True (memory.more_update Suc demo_memory)
   \<and> map_option call_count (final_memory (snd
         (retro_load_game (counted demo_load_rom) (Ptr 300) (with_count 0 demo_memory))))
       = Some 1
   \<and> map_option call_count (final_memory (snd
         (retro_load_game (counted demo_load_rom) NULL (with_count 0 demo_memory))))
       = Some 0"
proof -
  have same: "uncounted (with_count 0 demo_memory) = demo_memory"
    by (simp add: uncounted_def with_count_def demo_memory_def)
  have cnt: "call_count (with_count 0 demo_memory) = 0"
    by (simp add: call_count_def with_count_def)
  have obj: "heap (with_count 0 demo_memory) 300 = Some \<lparr>path = ''good.rom'', \<dots> = 9\<rparr>"
    by (simp add: with_count_def)
  have app: "demo_load_rom ''good.rom'' (uncounted (with_count 0 demo_memory))
      = Returns True (memory.more_update Suc demo_memory)"
    by (simp add: same demo_load_rom_def)
  from load_rom_called_at_most_once
      [of demo_load_rom NULL demo_memory 300 "\<lparr>path = ''good.rom'', \<dots> = 9\<rparr>"
        "with_count 0 demo_memory" True "memory.more_update Suc demo_memory"]
    load_rom_called_at_most_once
      [of demo_load_rom "Ptr 300" demo_memory 300 "\<lparr>path = ''good.rom'', \<dots> = 9\<rparr>"
        "with_count 0 demo_memory" True "memory.more_update Suc demo_memory"]
    cnt obj app
  show ?thesis
    by simp
qed

text \<open>
  C10. The function has no loop and no recursion. If \<open>load_rom\<close> terminates, so does
  the call; for a null pointer the call terminates whatever \<open>load_rom\<close> is; and every
  well-formed call returns a boolean and a memory.
\<close>

theorem retro_load_game_terminates:
  "snd (retro_load_game load_rom NULL s) \<noteq> Hangs
   \<and> ((\<forall>p. load_rom p s \<noteq> Hangs) \<longrightarrow> snd (retro_load_game load_rom game s) \<noteq> Hangs)
   \<and> (well_formed_call load_rom game s \<longrightarrow>
        (\<exists>b s'. snd (retro_load_game load_rom game s) = Returns b s'))"
proof (cases game)
  case NULL
  then show ?thesis
    by (auto simp add: run_null)
next
  case (Ptr a)
  show ?thesis
  proof (cases "heap s a")
    case None
    with Ptr show ?thesis
      by (simp add: run_null run_dangling well_formed_call_def load_report_def)
  next
    case (Some g)
    with Ptr show ?thesis
      by (cases "load_rom (path g) s")
        (auto simp add: run_null run_live well_formed_call_def load_report_def)
  qed
qed

theorem retro_load_game_terminates_witness:
  "(\<forall>p. demo_load_rom p demo_memory \<noteq> Hangs)
   \<and> snd (retro_load_game demo_load_rom (Ptr 100) demo_memory) \<noteq> Hangs
   \<and> well_formed_call demo_load_rom (Ptr 100) demo_memory
   \<and> (\<exists>b s'. snd (retro_load_game demo_load_rom (Ptr 100) demo_memory) = Returns b s')
   \<and> snd (retro_load_game (\<lambda>p s. Hangs) NULL demo_memory) \<noteq> Hangs"
proof -
  have total: "\<forall>p. demo_load_rom p demo_memory \<noteq> Hangs"
    by (simp add: demo_load_rom_def)
  have wf: "well_formed_call demo_load_rom (Ptr 100) demo_memory"
    by (simp add: well_formed_call_def load_report_def demo_load_rom_def)
  from retro_load_game_terminates [of demo_load_rom demo_memory "Ptr 100"]
    retro_load_game_terminates [of "\<lambda>p s. Hangs" demo_memory NULL] total wf
  show ?thesis
    by blast
qed

end
